theory Spec2Isabelle
  imports Main "HOL-Library.Char_ord" "HOL-Library.List_Lexorder"
begin

section \<open>Errors\<close>

text \<open>
  The exceptions of \<^verbatim>\<open>easyid3.py\<close> as values. \<^verbatim>\<open>EasyID3KeyError\<close> is the class
  declared in the module; its message is \<^verbatim>\<open>"%r is not a valid key" % key\<close>, so the
  value carries the key the message is built from. \<^verbatim>\<open>KeyError\<close> is Python's, raised
  by the container for an absent frame id and by the performer functions with the key.
  \<^verbatim>\<open>IndexError\<close> is what \<^verbatim>\<open>key.split(":", 1)[1]\<close> raises on a key without a colon.
\<close>

datatype error = EasyID3KeyError string | KeyError string | IndexError

text \<open>
  \<^verbatim>\<open>class EasyID3KeyError(KeyError, ValueError, error)\<close>: what \<^verbatim>\<open>isinstance\<close>
  (an \<^verbatim>\<open>except\<close> clause) answers for each exception.
\<close>

fun isinstance_KeyError :: "error \<Rightarrow> bool" where
  "isinstance_KeyError (EasyID3KeyError k) = True"
| "isinstance_KeyError (KeyError k) = True"
| "isinstance_KeyError IndexError = False"

fun isinstance_ValueError :: "error \<Rightarrow> bool" where
  "isinstance_ValueError (EasyID3KeyError k) = True"
| "isinstance_ValueError (KeyError k) = False"
| "isinstance_ValueError IndexError = False"

section \<open>The tag container\<close>

text \<open>
  Modelled from the spec: the frame classes and the container of \<^verbatim>\<open>mutagen.id3\<close>,
  which are not in \<^verbatim>\<open>src/\<close>. The spec's container holds frames identified by a
  4-character frame id, each with a typed payload: a plain text list, a genre list, a
  timestamp list, or a list of (role, person) pairs. Every frame is built with an
  \<^verbatim>\<open>encoding\<close>, which an assignment to the payload leaves as it is.
\<close>

datatype TextFrame = TextFrame (encoding: nat) (text': "string list")

datatype TCON = TCON (tcon_encoding: nat) (genres: "string list")

text \<open>
  Modelled from the spec: a timestamp entry of the date frame; the code reads only its
  textual form, \<^verbatim>\<open>stamp.text\<close>.
\<close>

datatype ID3TimeStamp = ID3TimeStamp (stamp_text: string)

datatype TDRC = TDRC (tdrc_encoding: nat) (tdrc_text: "ID3TimeStamp list")

datatype TMCL = TMCL (tmcl_encoding: nat) (people: "(string \<times> string) list")

text \<open>
  Modelled from the spec: the container, \<^verbatim>\<open>mutagen.id3.ID3\<close>. A frame is stored under
  its frame id, so the frame found under \<^verbatim>\<open>"TCON"\<close>, \<^verbatim>\<open>"TDRC"\<close> or \<^verbatim>\<open>"TMCL"\<close> has
  that class, and the plain text frames are a dictionary from frame id to frame.
\<close>

record ID3 =
  frames :: "string \<rightharpoonup> TextFrame"
  tcon :: "TCON option"
  tdrc :: "TDRC option"
  tmcl :: "TMCL option"

text \<open>
  Modelled from the spec: \<^verbatim>\<open>id3[frameid]\<close> gives the frame or raises \<^verbatim>\<open>KeyError\<close>
  when it is absent; \<^verbatim>\<open>del id3[frameid]\<close> removes it or raises \<^verbatim>\<open>KeyError\<close>;
  \<^verbatim>\<open>id3.add(frame)\<close> stores the frame under its id, replacing a frame already there.
\<close>

definition lookup :: "string \<Rightarrow> 'a option \<Rightarrow> error + 'a" where
  "lookup frameid slot = (case slot of None \<Rightarrow> Inl (KeyError frameid) | Some frame \<Rightarrow> Inr frame)"

definition del_frame :: "ID3 \<Rightarrow> string \<Rightarrow> error + ID3" where
  "del_frame id3 frameid =
     (case frames id3 frameid of
        None \<Rightarrow> Inl (KeyError frameid)
      | Some frame \<Rightarrow> Inr (id3\<lparr>frames := (frames id3)(frameid := None)\<rparr>))"

definition add_frame :: "ID3 \<Rightarrow> string \<Rightarrow> TextFrame \<Rightarrow> ID3" where
  "add_frame id3 frameid frame = id3\<lparr>frames := (frames id3)(frameid \<mapsto> frame)\<rparr>"

section \<open>Strings\<close>

text \<open>
  \<^verbatim>\<open>key.lower()\<close> on a byte string: the letters A to Z become a to z, every other
  character stays.
\<close>

definition lower_char :: "char \<Rightarrow> char" where
  "lower_char c =
     (case map_of (zip ''ABCDEFGHIJKLMNOPQRSTUVWXYZ'' ''abcdefghijklmnopqrstuvwxyz'') c of
        None \<Rightarrow> c
      | Some l \<Rightarrow> l)"

definition lower :: "string \<Rightarrow> string" where
  "lower s = map lower_char s"

text \<open>
  \<^verbatim>\<open>key.split(":", 1)[1]\<close>: the part after the first colon; \<^verbatim>\<open>IndexError\<close> when the
  key has no colon.
\<close>

definition split_role :: "string \<Rightarrow> error + string" where
  "split_role key =
     (case dropWhile (\<lambda>c. c \<noteq> CHR '':'') key of
        [] \<Rightarrow> Inl IndexError
      | c # rest \<Rightarrow> Inr rest)"

text \<open>\<^verbatim>\<open>sep.join(strings)\<close>.\<close>

fun join :: "string \<Rightarrow> string list \<Rightarrow> string" where
  "join sep [] = []"
| "join sep [s] = s"
| "join sep (s # t # ss) = s @ sep @ join sep (t # ss)"

section \<open>Glob matching\<close>

text \<open>
  Modelled from the spec: the glob matcher, Python's \<^verbatim>\<open>fnmatch.fnmatchcase(name, pat)\<close>,
  case-sensitive and over the whole name. \<^verbatim>\<open>*\<close> matches any run of characters,
  \<^verbatim>\<open>?\<close> any single character, every other character itself. Character classes
  \<^verbatim>\<open>[...]\<close> are left out: the patterns registered by the module are made of lowercase
  letters, \<^verbatim>\<open>:\<close> and \<^verbatim>\<open>*\<close> only.
\<close>

fun glob :: "string \<Rightarrow> string \<Rightarrow> bool" where
  "glob [] [] = True"
| "glob [] (c # name) = False"
| "glob (p # pat) [] = (p = CHR ''*'' \<and> glob pat [])"
| "glob (p # pat) (c # name) =
     (if p = CHR ''*'' then glob pat (c # name) \<or> glob (p # pat) name
      else (p = CHR ''?'' \<or> p = c) \<and> glob pat name)"

definition fnmatchcase :: "string \<Rightarrow> string \<Rightarrow> bool" where
  "fnmatchcase name pat = glob pat name"

text \<open>
  Modelled from the spec: \<^verbatim>\<open>mutagen._util.dict_match(d, key)\<close>, not in \<^verbatim>\<open>src/\<close>. First
  an exact literal match of the key; if there is none, the first pattern of the
  dictionary, in its iteration order, whose glob matches the key; otherwise no match
  (Python's \<^verbatim>\<open>None\<close>). A dictionary is an association list in iteration order.
\<close>

definition dict_match :: "(string \<times> 'a) list \<Rightarrow> string \<Rightarrow> 'a option" where
  "dict_match d key =
     (case map_of d key of
        Some v \<Rightarrow> Some v
      | None \<Rightarrow>
          (case find (\<lambda>(pattern, v). fnmatchcase key pattern) d of
             Some (pattern, v) \<Rightarrow> Some v
           | None \<Rightarrow> None))"

section \<open>The key registry\<close>

type_synonym getter_fn = "ID3 \<Rightarrow> string \<Rightarrow> error + string list"
type_synonym setter_fn = "ID3 \<Rightarrow> string \<Rightarrow> string list \<Rightarrow> error + ID3"
type_synonym deleter_fn = "ID3 \<Rightarrow> string \<Rightarrow> error + ID3"
type_synonym lister_fn = "ID3 \<Rightarrow> string \<Rightarrow> error + string list"

text \<open>
  The four class-level dictionaries \<^verbatim>\<open>Set\<close>, \<^verbatim>\<open>Get\<close>, \<^verbatim>\<open>Delete\<close>, \<^verbatim>\<open>List\<close> of
  \<^verbatim>\<open>EasyID3\<close> (the fields carry the suffix \<open>_tbl\<close>, since \<open>Set\<close> and \<open>List\<close> name
  theories of the library); a function that mutates the container returns the new
  container.
\<close>

record registry =
  Set_tbl :: "(string \<times> setter_fn) list"
  Get_tbl :: "(string \<times> getter_fn) list"
  Delete_tbl :: "(string \<times> deleter_fn) list"
  List_tbl :: "(string \<times> lister_fn) list"

text \<open>
  \<^verbatim>\<open>d[key] = v\<close> on a dictionary: the value of a key already there is replaced, a new
  key is added at the end.
\<close>

fun dict_set :: "(string \<times> 'a) list \<Rightarrow> string \<Rightarrow> 'a \<Rightarrow> (string \<times> 'a) list" where
  "dict_set [] key v = [(key, v)]"
| "dict_set ((k, w) # d) key v = (if k = key then (key, v) # d else (k, w) # dict_set d key v)"

definition RegisterKey ::
  "registry \<Rightarrow> string \<Rightarrow> getter_fn option \<Rightarrow> setter_fn option \<Rightarrow> deleter_fn option \<Rightarrow>
   lister_fn option \<Rightarrow> registry" where
  "RegisterKey cls key0 getter setter deleter lister =
     (let key = lower key0;
          cls1 = (case getter of None \<Rightarrow> cls
                  | Some f \<Rightarrow> cls\<lparr>Get_tbl := dict_set (Get_tbl cls) key f\<rparr>);
          cls2 = (case setter of None \<Rightarrow> cls1
                  | Some f \<Rightarrow> cls1\<lparr>Set_tbl := dict_set (Set_tbl cls1) key f\<rparr>);
          cls3 = (case deleter of None \<Rightarrow> cls2
                  | Some f \<Rightarrow> cls2\<lparr>Delete_tbl := dict_set (Delete_tbl cls2) key f\<rparr>);
          cls4 = (case lister of None \<Rightarrow> cls3
                  | Some f \<Rightarrow> cls3\<lparr>List_tbl := dict_set (List_tbl cls3) key f\<rparr>)
      in cls4)"

text \<open>The three closures of \<^verbatim>\<open>RegisterTextKey\<close>, with the frame id they close over.\<close>

definition getter :: "string \<Rightarrow> getter_fn" where
  "getter frameid id3 key =
     (case lookup frameid (frames id3 frameid) of
        Inl e \<Rightarrow> Inl e
      | Inr frame \<Rightarrow> Inr (text' frame))"

definition setter :: "string \<Rightarrow> setter_fn" where
  "setter frameid id3 key value =
     (case lookup frameid (frames id3 frameid) of
        Inl e \<Rightarrow> Inr (add_frame id3 frameid (TextFrame 3 value))
      | Inr frame \<Rightarrow> Inr (id3\<lparr>frames := (frames id3)(frameid \<mapsto> TextFrame (encoding frame) value)\<rparr>))"

definition deleter :: "string \<Rightarrow> deleter_fn" where
  "deleter frameid id3 key = del_frame id3 frameid"

definition RegisterTextKey :: "registry \<Rightarrow> string \<Rightarrow> string \<Rightarrow> registry" where
  "RegisterTextKey cls key frameid =
     RegisterKey cls key (Some (getter frameid)) (Some (setter frameid)) (Some (deleter frameid)) None"

section \<open>The built-in key behaviours\<close>

definition genre_get :: getter_fn where
  "genre_get id3 key =
     (case lookup ''TCON'' (tcon id3) of Inl e \<Rightarrow> Inl e | Inr frame \<Rightarrow> Inr (genres frame))"

definition genre_set :: setter_fn where
  "genre_set id3 key value =
     (case lookup ''TCON'' (tcon id3) of
        Inl e \<Rightarrow> Inr (id3\<lparr>tcon := Some (TCON 3 value)\<rparr>)
      | Inr frame \<Rightarrow> Inr (id3\<lparr>tcon := Some (TCON (tcon_encoding frame) value)\<rparr>))"

definition genre_delete :: deleter_fn where
  "genre_delete id3 key =
     (case lookup ''TCON'' (tcon id3) of Inl e \<Rightarrow> Inl e | Inr frame \<Rightarrow> Inr (id3\<lparr>tcon := None\<rparr>))"

definition date_get :: getter_fn where
  "date_get id3 key =
     (case lookup ''TDRC'' (tdrc id3) of
        Inl e \<Rightarrow> Inl e
      | Inr frame \<Rightarrow> Inr (map stamp_text (tdrc_text frame)))"

definition date_set :: setter_fn where
  "date_set id3 key value = Inr (id3\<lparr>tdrc := Some (TDRC 3 (map ID3TimeStamp value))\<rparr>)"

definition date_delete :: deleter_fn where
  "date_delete id3 key =
     (case lookup ''TDRC'' (tdrc id3) of Inl e \<Rightarrow> Inl e | Inr frame \<Rightarrow> Inr (id3\<lparr>tdrc := None\<rparr>))"

definition performer_get :: getter_fn where
  "performer_get id3 key =
     (case split_role key of
        Inl e \<Rightarrow> Inl e
      | Inr wanted_role \<Rightarrow>
          (case lookup ''TMCL'' (tmcl id3) of
             Inl e \<Rightarrow> Inl (KeyError key)
           | Inr mcl \<Rightarrow>
               (let people = map snd (filter (\<lambda>(role, person). role = wanted_role) (people mcl))
                in if people \<noteq> [] then Inr people else Inl (KeyError key))))"

definition performer_set :: setter_fn where
  "performer_set id3 key value =
     (case split_role key of
        Inl e \<Rightarrow> Inl e
      | Inr wanted_role \<Rightarrow>
          (let mcl = (case lookup ''TMCL'' (tmcl id3) of Inl e \<Rightarrow> TMCL 3 [] | Inr mcl \<Rightarrow> mcl);
               people = filter (\<lambda>p. fst p \<noteq> wanted_role) (people mcl)
                          @ map (\<lambda>v. (wanted_role, v)) value
           in Inr (id3\<lparr>tmcl := Some (TMCL (tmcl_encoding mcl) people)\<rparr>)))"

definition performer_delete :: deleter_fn where
  "performer_delete id3 key =
     (case split_role key of
        Inl e \<Rightarrow> Inl e
      | Inr wanted_role \<Rightarrow>
          (case lookup ''TMCL'' (tmcl id3) of
             Inl e \<Rightarrow> Inl (KeyError key)
           | Inr mcl \<Rightarrow>
               (let people = filter (\<lambda>p. fst p \<noteq> wanted_role) (people mcl)
                in if people = TMCL.people mcl then Inl (KeyError key)
                   else if people \<noteq> [] then Inr (id3\<lparr>tmcl := Some (TMCL (tmcl_encoding mcl) people)\<rparr>)
                   else Inr (id3\<lparr>tmcl := None\<rparr>))))"

text \<open>
  \<^verbatim>\<open>list(set(...))\<close> removes duplicates and fixes no order; the model keeps one
  occurrence of each key, in list order.
\<close>

definition performer_list :: lister_fn where
  "performer_list id3 key =
     (case lookup ''TMCL'' (tmcl id3) of
        Inl e \<Rightarrow> Inr []
      | Inr mcl \<Rightarrow> Inr (remdups (map (\<lambda>p. ''performer:'' @ fst p) (people mcl))))"

text \<open>
  The registrations at the end of the module. The text keys are registered in the order
  the dictionary literal is written in (Python 2 iterates it in hash order; every key is
  registered once, so the order only decides the order of \<^verbatim>\<open>keys()\<close>).
\<close>

definition text_keys :: "(string \<times> string) list" where
  "text_keys =
     [(''TALB'', ''album''), (''TBPM'', ''bpm''), (''TCMP'', ''compilation''),
      (''TCOM'', ''composer''), (''TCOP'', ''copyright''), (''TENC'', ''encodedby''),
      (''TEXT'', ''lyricist''), (''TLEN'', ''length''), (''TMED'', ''media''),
      (''TMOO'', ''mood''), (''TIT2'', ''title''), (''TIT3'', ''version''),
      (''TPE1'', ''artist''), (''TPE2'', ''performer''), (''TPE3'', ''conductor''),
      (''TPE4'', ''arranger''), (''TPOS'', ''discnumber''), (''TPUB'', ''organization''),
      (''TRCK'', ''tracknumber''), (''TOLY'', ''author''), (''TSO2'', ''albumartistsort''),
      (''TSOA'', ''albumsort''), (''TSOC'', ''composersort''), (''TSOP'', ''artistsort''),
      (''TSOT'', ''titlesort''), (''TSRC'', ''isrc''), (''TSST'', ''discsubtitle'')]"

definition empty_registry :: registry where
  "empty_registry = \<lparr>Set_tbl = [], Get_tbl = [], Delete_tbl = [], List_tbl = []\<rparr>"

definition EasyID3 :: registry where
  "EasyID3 =
     RegisterKey
       (RegisterKey
          (RegisterKey
             (fold (\<lambda>(frameid, key) cls. RegisterTextKey cls key frameid) text_keys empty_registry)
             ''genre'' (Some genre_get) (Some genre_set) (Some genre_delete) None)
          ''date'' (Some date_get) (Some date_set) (Some date_delete) None)
       ''performer:*'' (Some performer_get) (Some performer_set) (Some performer_delete)
       (Some performer_list)"

section \<open>The dispatch facade\<close>

text \<open>
  The methods of \<^verbatim>\<open>EasyID3\<close>, over the class's registry and the instance's container
  \<^verbatim>\<open>self.__id3\<close>.
\<close>

definition getitem :: "registry \<Rightarrow> ID3 \<Rightarrow> string \<Rightarrow> error + string list" where
  "getitem cls id3 key0 =
     (let key = lower key0
      in case dict_match (Get_tbl cls) key of
           Some func \<Rightarrow> func id3 key
         | None \<Rightarrow> Inl (EasyID3KeyError key))"

text \<open>The value given to \<^verbatim>\<open>__setitem__\<close>: one string or a list of strings.\<close>

datatype pyvalue = Str string | Strs "string list"

definition setitem :: "registry \<Rightarrow> ID3 \<Rightarrow> string \<Rightarrow> pyvalue \<Rightarrow> error + ID3" where
  "setitem cls id3 key0 value0 =
     (let key = lower key0;
          value = (case value0 of Str s \<Rightarrow> [s] | Strs v \<Rightarrow> v)
      in case dict_match (Set_tbl cls) key of
           Some func \<Rightarrow> func id3 key value
         | None \<Rightarrow> Inl (EasyID3KeyError key))"

definition delitem :: "registry \<Rightarrow> ID3 \<Rightarrow> string \<Rightarrow> error + ID3" where
  "delitem cls id3 key0 =
     (let key = lower key0
      in case dict_match (Delete_tbl cls) key of
           Some func \<Rightarrow> func id3 key
         | None \<Rightarrow> Inl (EasyID3KeyError key))"

text \<open>
  Modelled from the spec: \<^verbatim>\<open>key in self\<close>, which \<^verbatim>\<open>DictMixin\<close> (not in \<^verbatim>\<open>src/\<close>)
  answers by trying \<^verbatim>\<open>self[key]\<close> and absorbing a \<^verbatim>\<open>KeyError\<close>; any other exception
  goes on to the caller.
\<close>

definition has_key :: "registry \<Rightarrow> ID3 \<Rightarrow> string \<Rightarrow> error + bool" where
  "has_key cls id3 key =
     (case getitem cls id3 key of
        Inr values \<Rightarrow> Inr True
      | Inl e \<Rightarrow> if isinstance_KeyError e then Inr False else Inl e)"

fun keys_loop :: "registry \<Rightarrow> ID3 \<Rightarrow> string list \<Rightarrow> string list \<Rightarrow> error + string list" where
  "keys_loop cls id3 [] keys = Inr keys"
| "keys_loop cls id3 (key # rest) keys =
     (case map_of (List_tbl cls) key of
        Some lister \<Rightarrow>
          (case lister id3 key of
             Inl e \<Rightarrow> Inl e
           | Inr listed \<Rightarrow> keys_loop cls id3 rest (keys @ listed))
      | None \<Rightarrow>
          (case has_key cls id3 key of
             Inl e \<Rightarrow> Inl e
           | Inr present \<Rightarrow> keys_loop cls id3 rest (if present then keys @ [key] else keys)))"

definition keys :: "registry \<Rightarrow> ID3 \<Rightarrow> error + string list" where
  "keys cls id3 = keys_loop cls id3 (map fst (Get_tbl cls)) []"

fun pprint_loop :: "registry \<Rightarrow> ID3 \<Rightarrow> string list \<Rightarrow> string list \<Rightarrow> error + string list" where
  "pprint_loop cls id3 [] strings = Inr strings"
| "pprint_loop cls id3 (key # rest) strings =
     (case getitem cls id3 key of
        Inl e \<Rightarrow> Inl e
      | Inr values \<Rightarrow>
          pprint_loop cls id3 rest (strings @ map (\<lambda>value. key @ ''='' @ value) values))"

definition pprint :: "registry \<Rightarrow> ID3 \<Rightarrow> error + string" where
  "pprint cls id3 =
     (case keys cls id3 of
        Inl e \<Rightarrow> Inl e
      | Inr ks \<Rightarrow>
          (case pprint_loop cls id3 (sort ks) [] of
             Inl e \<Rightarrow> Inl e
           | Inr strings \<Rightarrow> Inr (join [CHR 0x0A] strings)))"

text \<open>A container with no frame.\<close>

definition empty_id3 :: ID3 where
  "empty_id3 = \<lparr>frames = Map.empty, tcon = None, tdrc = None, tmcl = None\<rparr>"

text \<open>
  The (role, person) pairs a container holds: those of its performer frame, none when
  the frame is absent. An observation used to state the properties of the performer
  keys; \<^verbatim>\<open>performer_set\<close> itself starts from an empty frame when there is none.
\<close>

definition pairs :: "ID3 \<Rightarrow> (string \<times> string) list" where
  "pairs id3 = (case tmcl id3 of None \<Rightarrow> [] | Some mcl \<Rightarrow> people mcl)"

section \<open>Example inputs\<close>

text \<open>A container holding a title frame and an album frame.\<close>

definition example_id3 :: ID3 where
  "example_id3 =
     \<lparr>frames = [''TIT2'' \<mapsto> TextFrame 3 [''X''], ''TALB'' \<mapsto> TextFrame 3 [''Y'']],
      tcon = None, tdrc = None, tmcl = None\<rparr>"

text \<open>A dictionary with a literal key and two overlapping glob patterns.\<close>

definition example_dict :: "(string \<times> string) list" where
  "example_dict = [(''performer'', ''literal''), (''title'', ''title''),
     (''performer:*'', ''first glob''), (''perf*'', ''second glob'')]"

text \<open>A container whose performer frame credits two roles.\<close>

definition band_id3 :: ID3 where
  "band_id3 =
     \<lparr>frames = Map.empty, tcon = None, tdrc = None,
      tmcl = Some (TMCL 0 [(''guitar'', ''Alice''), (''drums'', ''Bob''), (''guitar'', ''Carol'')])\<rparr>"

text \<open>A container with a title, a genre and a date frame, each built with encoding 0.\<close>

definition tagged_id3 :: ID3 where
  "tagged_id3 =
     \<lparr>frames = [''TIT2'' \<mapsto> TextFrame 0 [''Old title'']],
      tcon = Some (TCON 0 [''Blues'']),
      tdrc = Some (TDRC 0 [ID3TimeStamp ''1999'']),
      tmcl = None\<rparr>"

text \<open>
  A container whose performer frame has a role that is not lowercase, as a tag written
  by another program can have.
\<close>

definition mixed_case_id3 :: ID3 where
  "mixed_case_id3 =
     \<lparr>frames = Map.empty, tcon = None, tdrc = None,
      tmcl = Some (TMCL 3 [(''Guitar'', ''Alice'')])\<rparr>"

text \<open>
  The container with title \<^verbatim>\<open>X\<close> and album \<^verbatim>\<open>Y\<close>, with a performer credit whose role is
  not lowercase.
\<close>

definition credited_id3 :: ID3 where
  "credited_id3 =
     \<lparr>frames = [''TIT2'' \<mapsto> TextFrame 3 [''X''], ''TALB'' \<mapsto> TextFrame 3 [''Y'']],
      tcon = None, tdrc = None,
      tmcl = Some (TMCL 3 [(''Guitar'', ''Alice'')])\<rparr>"

text \<open>A container whose performer frame has two roles that differ only in case.\<close>

definition two_case_id3 :: ID3 where
  "two_case_id3 =
     \<lparr>frames = Map.empty, tcon = None, tdrc = None,
      tmcl = Some (TMCL 3 [(''Guitar'', ''Alice''), (''guitar'', ''Bob'')])\<rparr>"

section \<open>The registry of the module\<close>

lemma RegisterKey_simps:
  "Get_tbl (RegisterKey cls k (Some g) (Some s) (Some d) l) = dict_set (Get_tbl cls) (lower k) g"
  "Set_tbl (RegisterKey cls k (Some g) (Some s) (Some d) l) = dict_set (Set_tbl cls) (lower k) s"
  "Delete_tbl (RegisterKey cls k (Some g) (Some s) (Some d) l) = dict_set (Delete_tbl cls) (lower k) d"
  "List_tbl (RegisterKey cls k (Some g) (Some s) (Some d) None) = List_tbl cls"
  "List_tbl (RegisterKey cls k (Some g) (Some s) (Some d) (Some li)) = dict_set (List_tbl cls) (lower k) li"
  by (simp_all add: RegisterKey_def Let_def split: option.splits)

lemmas registry_unfold =
  EasyID3_def text_keys_def RegisterTextKey_def RegisterKey_simps empty_registry_def
  lower_def lower_char_def

lemma Get_EasyID3:
  "Get_tbl EasyID3 = map (\<lambda>(frameid, key). (key, getter frameid)) text_keys
      @ [(''genre'', genre_get), (''date'', date_get), (''performer:*'', performer_get)]"
  by (simp add: registry_unfold)

lemma Set_EasyID3:
  "Set_tbl EasyID3 = map (\<lambda>(frameid, key). (key, setter frameid)) text_keys
      @ [(''genre'', genre_set), (''date'', date_set), (''performer:*'', performer_set)]"
  by (simp add: registry_unfold)

lemma Delete_EasyID3:
  "Delete_tbl EasyID3 = map (\<lambda>(frameid, key). (key, deleter frameid)) text_keys
      @ [(''genre'', genre_delete), (''date'', date_delete),
         (''performer:*'', performer_delete)]"
  by (simp add: registry_unfold)

lemma List_EasyID3: "List_tbl EasyID3 = [(''performer:*'', performer_list)]"
  by (simp add: registry_unfold)

lemma lower_idem_text_keys: "(frameid, K) \<in> set text_keys \<Longrightarrow> lower K = K"
  by (auto simp: text_keys_def lower_def lower_char_def)

lemma distinct_text_keys: "distinct (map snd text_keys)"
  by (simp add: text_keys_def)

lemma map_of_text_tbl:
  "distinct (map snd tk) \<Longrightarrow> (frameid, K) \<in> set tk \<Longrightarrow>
   map_of (map (\<lambda>(frameid, key). (key, G frameid)) tk @ rest) K = Some (G frameid)"
proof (induction tk)
  case Nil
  then show ?case by simp
next
  case (Cons a tk)
  obtain f k where a: "a = (f, k)" by (cases a)
  show ?case
  proof (cases "k = K")
    case True
    with Cons.prems a have "f = frameid" by (force simp: image_iff)
    with True a show ?thesis by simp
  next
    case False
    with Cons a show ?thesis by auto
  qed
qed

lemma dict_match_literal: "map_of d key = Some v \<Longrightarrow> dict_match d key = Some v"
  by (simp add: dict_match_def)

lemma dict_match_Get_text:
  "(frameid, K) \<in> set text_keys \<Longrightarrow> dict_match (Get_tbl EasyID3) K = Some (getter frameid)"
  unfolding Get_EasyID3 by (rule dict_match_literal, rule map_of_text_tbl [OF distinct_text_keys])

lemma dict_match_Set_text:
  "(frameid, K) \<in> set text_keys \<Longrightarrow> dict_match (Set_tbl EasyID3) K = Some (setter frameid)"
  unfolding Set_EasyID3 by (rule dict_match_literal, rule map_of_text_tbl [OF distinct_text_keys])

lemma dict_match_Delete_text:
  "(frameid, K) \<in> set text_keys \<Longrightarrow>
   dict_match (Delete_tbl EasyID3) K = Some (deleter frameid)"
  unfolding Delete_EasyID3
  by (rule dict_match_literal, rule map_of_text_tbl [OF distinct_text_keys])

section \<open>Text keys\<close>

lemma getter_setter:
  "\<exists>id3'. setter frameid id3 key V = Inr id3' \<and> getter frameid id3' key' = Inr V"
  by (simp add: setter_def getter_def lookup_def add_frame_def split: option.splits)

text \<open>
  C1. For every key registered by \<^verbatim>\<open>RegisterTextKey\<close> at the end of the module and
  every list of strings \<open>V\<close>, \<^verbatim>\<open>self[K] = V\<close> succeeds on every container, whether or not
  the frame was there, and \<^verbatim>\<open>self[K]\<close> then returns exactly \<open>V\<close>.
\<close>

theorem text_key_roundtrip:
  assumes "(frameid, K) \<in> set text_keys"
  shows "\<exists>id3'. setitem EasyID3 id3 K (Strs V) = Inr id3' \<and> getitem EasyID3 id3' K = Inr V"
  using assms getter_setter [of frameid id3 K V K]
  by (simp add: setitem_def getitem_def lower_idem_text_keys dict_match_Get_text
      dict_match_Set_text)

theorem text_key_roundtrip_witness:
  "(''TIT2'', ''title'') \<in> set text_keys \<and>
   (\<exists>id3'. setitem EasyID3 empty_id3 ''title'' (Strs [''X'', ''Y'']) = Inr id3' \<and>
           getitem EasyID3 id3' ''title'' = Inr [''X'', ''Y''])"
proof -
  have h: "(''TIT2'', ''title'') \<in> set text_keys" by (simp add: text_keys_def)
  show ?thesis using h text_key_roundtrip [OF h, of empty_id3 "[''X'', ''Y'']"] by simp
qed

section \<open>Invalid keys\<close>

lemma dict_match_None:
  "\<forall>p \<in> fst ` set d. p \<noteq> key \<and> \<not> fnmatchcase key p \<Longrightarrow> dict_match d key = None"
proof -
  assume h: "\<forall>p \<in> fst ` set d. p \<noteq> key \<and> \<not> fnmatchcase key p"
  then have "map_of d key = None" by (force simp: map_of_eq_None_iff)
  moreover from h have "find (\<lambda>(pattern, v). fnmatchcase key pattern) d = None"
    by (force simp: find_None_iff)
  ultimately show ?thesis by (simp add: dict_match_def)
qed

text \<open>
  C2. A key that no pattern of the operation's table matches, neither literally nor as a
  glob, makes \<^verbatim>\<open>__getitem__\<close>, \<^verbatim>\<open>__delitem__\<close> and \<^verbatim>\<open>__setitem__\<close> raise
  \<^verbatim>\<open>EasyID3KeyError\<close> built from the lowercased key, whatever the container holds; that
  exception is an instance of both \<^verbatim>\<open>KeyError\<close> and \<^verbatim>\<open>ValueError\<close>.
\<close>

theorem invalid_key:
  "((\<forall>p \<in> fst ` set (Get_tbl cls). p \<noteq> lower key \<and> \<not> fnmatchcase (lower key) p) \<longrightarrow>
      getitem cls id3 key = Inl (EasyID3KeyError (lower key))) \<and>
   ((\<forall>p \<in> fst ` set (Delete_tbl cls). p \<noteq> lower key \<and> \<not> fnmatchcase (lower key) p) \<longrightarrow>
      delitem cls id3 key = Inl (EasyID3KeyError (lower key))) \<and>
   ((\<forall>p \<in> fst ` set (Set_tbl cls). p \<noteq> lower key \<and> \<not> fnmatchcase (lower key) p) \<longrightarrow>
      setitem cls id3 key v = Inl (EasyID3KeyError (lower key))) \<and>
   isinstance_KeyError (EasyID3KeyError (lower key)) \<and>
   isinstance_ValueError (EasyID3KeyError (lower key))"
  by (simp add: getitem_def delitem_def setitem_def dict_match_None)

lemma no_match_nonexistent:
  "\<forall>p \<in> fst ` set (Get_tbl EasyID3). p \<noteq> ''nonexistent'' \<and> \<not> fnmatchcase ''nonexistent'' p"
  "\<forall>p \<in> fst ` set (Delete_tbl EasyID3). p \<noteq> ''nonexistent'' \<and> \<not> fnmatchcase ''nonexistent'' p"
  "\<forall>p \<in> fst ` set (Set_tbl EasyID3). p \<noteq> ''nonexistent'' \<and> \<not> fnmatchcase ''nonexistent'' p"
  by (simp_all add: Get_EasyID3 Delete_EasyID3 Set_EasyID3 text_keys_def fnmatchcase_def)

theorem invalid_key_witness:
  "getitem EasyID3 example_id3 ''Nonexistent'' = Inl (EasyID3KeyError ''nonexistent'') \<and>
   delitem EasyID3 example_id3 ''Nonexistent'' = Inl (EasyID3KeyError ''nonexistent'') \<and>
   setitem EasyID3 example_id3 ''Nonexistent'' (Strs [''v'']) = Inl (EasyID3KeyError ''nonexistent'') \<and>
   isinstance_KeyError (EasyID3KeyError ''nonexistent'') \<and>
   isinstance_ValueError (EasyID3KeyError ''nonexistent'')"
proof -
  have l: "lower ''Nonexistent'' = ''nonexistent''" by (simp add: lower_def lower_char_def)
  show ?thesis
    using invalid_key [of EasyID3 "''Nonexistent''" example_id3 "Strs [''v'']"] no_match_nonexistent
    unfolding l by blast
qed

section \<open>Key resolution\<close>

lemma find_first:
  "i < length d \<Longrightarrow> P (d ! i) \<Longrightarrow> \<forall>j<i. \<not> P (d ! j) \<Longrightarrow> find P d = Some (d ! i)"
proof (induction d arbitrary: i)
  case Nil
  then show ?case by simp
next
  case (Cons a d)
  show ?case
  proof (cases i)
    case 0
    with Cons.prems show ?thesis by simp
  next
    case (Suc n)
    with Cons.prems have "\<not> P a" by force
    moreover have "find P d = Some (d ! n)"
    proof (rule Cons.IH)
      show "n < length d" using Cons.prems Suc by simp
      show "P (d ! n)" using Cons.prems Suc by simp
      show "\<forall>j<n. \<not> P (d ! j)" using Cons.prems(3) Suc by auto
    qed
    ultimately show ?thesis using Suc by simp
  qed
qed

lemma dict_match_glob:
  assumes "key \<notin> fst ` set d" "i < length d" "fnmatchcase key (fst (d ! i))"
    "\<forall>j<i. \<not> fnmatchcase key (fst (d ! j))"
  shows "dict_match d key = Some (snd (d ! i))"
proof -
  from assms(1) have "map_of d key = None" by (simp add: map_of_eq_None_iff)
  moreover have "find (\<lambda>(pattern, v). fnmatchcase key pattern) d = Some (d ! i)"
    using assms by (intro find_first) (auto simp: case_prod_beta)
  ultimately show ?thesis by (simp add: dict_match_def case_prod_beta)
qed

lemma dict_match_exact:
  "distinct (map fst d) \<Longrightarrow> (key, v) \<in> set d \<Longrightarrow> dict_match d key = Some v"
  by (simp add: dict_match_literal)

lemma glob_star: "glob ''*'' name"
  by (induction name) auto

text \<open>
  C3. Key resolution has two tiers. In a dictionary (its keys distinct) a pattern equal to
  the key gives its own value; when no pattern equals the key, the first pattern in
  iteration order whose glob matches gives the value; when none matches either, there is
  no match. In the module's table \<^verbatim>\<open>"performer"\<close> resolves to the literal text key of
  frame TPE2, and \<^verbatim>\<open>"performer:guitar"\<close>, which is no literal key, resolves to the entry
  of the glob \<^verbatim>\<open>"performer:*"\<close>.
\<close>

theorem two_tier_resolution:
  "(distinct (map fst d) \<longrightarrow> (\<forall>v. (key, v) \<in> set d \<longrightarrow> dict_match d key = Some v)) \<and>
   (key \<notin> fst ` set d \<longrightarrow>
      (\<forall>i<length d. fnmatchcase key (fst (d ! i)) \<and> (\<forall>j<i. \<not> fnmatchcase key (fst (d ! j))) \<longrightarrow>
         dict_match d key = Some (snd (d ! i))) \<and>
      ((\<forall>p \<in> fst ` set d. \<not> fnmatchcase key p) \<longrightarrow> dict_match d key = None)) \<and>
   distinct (map fst (Get_tbl EasyID3)) \<and>
   dict_match (Get_tbl EasyID3) ''performer'' = Some (getter ''TPE2'') \<and>
   (''performer'', getter ''TPE2'') \<in> set (Get_tbl EasyID3) \<and>
   dict_match (Get_tbl EasyID3) ''performer:guitar'' = Some performer_get \<and>
   ''performer:guitar'' \<notin> fst ` set (Get_tbl EasyID3) \<and>
   find (\<lambda>(pattern, v). fnmatchcase ''performer:guitar'' pattern) (Get_tbl EasyID3)
     = Some (''performer:*'', performer_get)"
proof -
  have "dict_match (Get_tbl EasyID3) ''performer:guitar'' = Some performer_get"
    by (simp add: Get_EasyID3 text_keys_def dict_match_def fnmatchcase_def)
  moreover have "find (\<lambda>(pattern, v). fnmatchcase ''performer:guitar'' pattern) (Get_tbl EasyID3)
     = Some (''performer:*'', performer_get)"
    by (simp add: Get_EasyID3 text_keys_def fnmatchcase_def)
  moreover have "dict_match (Get_tbl EasyID3) ''performer'' = Some (getter ''TPE2'')"
    by (simp add: Get_EasyID3 text_keys_def dict_match_def)
  moreover have "distinct (map fst (Get_tbl EasyID3))"
    by (simp add: Get_EasyID3 text_keys_def)
  moreover have "''performer:guitar'' \<notin> fst ` set (Get_tbl EasyID3)"
    by (simp add: Get_EasyID3 text_keys_def)
  moreover have "(''performer'', getter ''TPE2'') \<in> set (Get_tbl EasyID3)"
    by (simp add: Get_EasyID3 text_keys_def)
  moreover have "distinct (map fst d) \<longrightarrow> (\<forall>v. (key, v) \<in> set d \<longrightarrow> dict_match d key = Some v)"
    by (simp add: dict_match_exact)
  moreover have "key \<notin> fst ` set d \<longrightarrow>
      (\<forall>i<length d. fnmatchcase key (fst (d ! i)) \<and> (\<forall>j<i. \<not> fnmatchcase key (fst (d ! j))) \<longrightarrow>
         dict_match d key = Some (snd (d ! i)))"
    using dict_match_glob [of key d] by blast
  moreover have "key \<notin> fst ` set d \<longrightarrow> (\<forall>p \<in> fst ` set d. \<not> fnmatchcase key p) \<longrightarrow>
      dict_match d key = None"
    using dict_match_None [of d key] by blast
  ultimately show ?thesis by blast
qed

theorem two_tier_resolution_witness:
  "dict_match example_dict ''performer'' = Some ''literal'' \<and>
   dict_match example_dict ''performer:guitar'' = Some ''first glob'' \<and>
   dict_match example_dict ''nonexistent'' = None"
proof -
  have a: "distinct (map fst example_dict)" "(''performer'', ''literal'') \<in> set example_dict"
    by (simp_all add: example_dict_def)
  have b: "''performer:guitar'' \<notin> fst ` set example_dict" "2 < length example_dict"
    "fnmatchcase ''performer:guitar'' (fst (example_dict ! 2))"
    "\<forall>j<2. \<not> fnmatchcase ''performer:guitar'' (fst (example_dict ! j))"
    "snd (example_dict ! 2) = ''first glob''"
    by (simp_all add: example_dict_def fnmatchcase_def less_Suc_eq numeral_2_eq_2)
  have c: "''nonexistent'' \<notin> fst ` set example_dict"
    "\<forall>p \<in> fst ` set example_dict. \<not> fnmatchcase ''nonexistent'' p"
    by (simp_all add: example_dict_def fnmatchcase_def)
  from a two_tier_resolution [where d = example_dict and key = "''performer''"]
  have 1: "dict_match example_dict ''performer'' = Some ''literal''" by blast
  from b two_tier_resolution [where d = example_dict and key = "''performer:guitar''"]
  have 2: "dict_match example_dict ''performer:guitar'' = Some ''first glob''" by metis
  from c two_tier_resolution [where d = example_dict and key = "''nonexistent''"]
  have 3: "dict_match example_dict ''nonexistent'' = None" by blast
  from 1 2 3 show ?thesis by simp
qed

section \<open>Performer keys\<close>

lemma lower_performer: "lower (''performer:'' @ r) = ''performer:'' @ lower r"
  by (simp add: lower_def lower_char_def)

lemma split_role_performer: "split_role (''performer:'' @ r) = Inr r"
  by (simp add: split_role_def)

lemma fnmatchcase_performer: "fnmatchcase (''performer:'' @ r) ''performer:*''"
  by (simp add: fnmatchcase_def glob_star)

lemma dict_match_Get_performer:
  "dict_match (Get_tbl EasyID3) (''performer:'' @ r) = Some performer_get"
  by (simp add: Get_EasyID3 text_keys_def dict_match_def fnmatchcase_def glob_star)

lemma dict_match_Set_performer:
  "dict_match (Set_tbl EasyID3) (''performer:'' @ r) = Some performer_set"
  by (simp add: Set_EasyID3 text_keys_def dict_match_def fnmatchcase_def glob_star)

lemma dict_match_Delete_performer:
  "dict_match (Delete_tbl EasyID3) (''performer:'' @ r) = Some performer_delete"
  by (simp add: Delete_EasyID3 text_keys_def dict_match_def fnmatchcase_def glob_star)

lemma getitem_performer:
  "getitem EasyID3 id3 (''performer:'' @ r) = performer_get id3 (''performer:'' @ lower r)"
  by (simp only: getitem_def lower_performer Let_def dict_match_Get_performer option.case)

lemma setitem_performer:
  "setitem EasyID3 id3 (''performer:'' @ r) (Strs V) = performer_set id3 (''performer:'' @ lower r) V"
  by (simp only: setitem_def lower_performer Let_def dict_match_Set_performer option.case pyvalue.case)

lemma delitem_performer:
  "delitem EasyID3 id3 (''performer:'' @ r) = performer_delete id3 (''performer:'' @ lower r)"
  by (simp only: delitem_def lower_performer Let_def dict_match_Delete_performer option.case)

lemma performer_get_eq:
  "performer_get id3 (''performer:'' @ r) =
     (if \<exists>p \<in> set (pairs id3). fst p = r
      then Inr (map snd (filter (\<lambda>p. fst p = r) (pairs id3)))
      else Inl (KeyError (''performer:'' @ r)))"
  by (simp only: performer_get_def split_role_performer)
     (auto simp: pairs_def lookup_def Let_def case_prod_unfold filter_empty_conv split: option.splits)

lemma performer_set_eq:
  "performer_set id3 (''performer:'' @ r) V =
     Inr (id3\<lparr>tmcl := Some (TMCL (case tmcl id3 of None \<Rightarrow> 3 | Some mcl \<Rightarrow> tmcl_encoding mcl)
        (filter (\<lambda>p. fst p \<noteq> r) (pairs id3) @ map (\<lambda>v. (r, v)) V))\<rparr>)"
  by (simp only: performer_set_def split_role_performer)
     (auto simp: pairs_def lookup_def Let_def split: option.splits)

lemma performer_delete_eq:
  "performer_delete id3 (''performer:'' @ r) =
     (case tmcl id3 of
        None \<Rightarrow> Inl (KeyError (''performer:'' @ r))
      | Some mcl \<Rightarrow>
          (if \<not> (\<exists>p \<in> set (people mcl). fst p = r) then Inl (KeyError (''performer:'' @ r))
           else if \<exists>p \<in> set (people mcl). fst p \<noteq> r
             then Inr (id3\<lparr>tmcl := Some (TMCL (tmcl_encoding mcl)
                    (filter (\<lambda>p. fst p \<noteq> r) (people mcl)))\<rparr>)
           else Inr (id3\<lparr>tmcl := None\<rparr>)))"
  by (simp only: performer_delete_def split_role_performer)
     (auto simp: lookup_def Let_def filter_id_conv filter_empty_conv split: option.splits)

lemma performer_list_eq:
  "performer_list id3 key = Inr (remdups (map (\<lambda>p. ''performer:'' @ fst p) (pairs id3)))"
  by (simp add: performer_list_def pairs_def lookup_def split: option.splits)

lemma pairs_update [simp]: "pairs (id3\<lparr>tmcl := Some (TMCL e ps)\<rparr>) = ps"
  by (simp add: pairs_def)

lemma pairs_removed [simp]: "pairs (id3\<lparr>tmcl := None\<rparr>) = []"
  by (simp add: pairs_def)

lemma filter_role_new: "filter (\<lambda>p. fst p = r) (map (\<lambda>v. (r, v)) V) = map (\<lambda>v. (r, v)) V"
  by (induction V) auto

lemma filter_role_other: "r' \<noteq> r \<Longrightarrow> filter (\<lambda>p. fst p = r') (map (\<lambda>v. (r, v)) V) = []"
  by (induction V) auto

lemma filter_role_removed: "filter (\<lambda>p. fst p = r) (filter (\<lambda>p. fst p \<noteq> r) ps) = []"
  by (induction ps) auto

lemma filter_role_kept:
  "r' \<noteq> r \<Longrightarrow> filter (\<lambda>p. fst p = r') (filter (\<lambda>p. fst p \<noteq> r) ps) = filter (\<lambda>p. fst p = r') ps"
  by (induction ps) auto

lemma role_after_set:
  "map snd (filter (\<lambda>p. fst p = r) (filter (\<lambda>p. fst p \<noteq> r) ps @ map (\<lambda>v. (r, v)) V)) = V"
  by (simp add: filter_role_removed filter_role_new comp_def)

lemma other_role_after_set:
  "r' \<noteq> r \<Longrightarrow>
   filter (\<lambda>p. fst p = r') (filter (\<lambda>p. fst p \<noteq> r) ps @ map (\<lambda>v. (r, v)) V)
     = filter (\<lambda>p. fst p = r') ps"
  by (auto simp: filter_role_other intro!: filter_cong)

lemma role_present_iff: "(\<exists>p \<in> set ps. fst p = r) \<longleftrightarrow> filter (\<lambda>p. fst p = r) ps \<noteq> []"
  by (auto simp: filter_empty_conv)

lemma performer_get_eq2:
  "performer_get id3 (''performer:'' @ r) =
     (if filter (\<lambda>p. fst p = r) (pairs id3) = [] then Inl (KeyError (''performer:'' @ r))
      else Inr (map snd (filter (\<lambda>p. fst p = r) (pairs id3))))"
  by (simp only: performer_get_eq role_present_iff) simp

lemma performer_get_present:
  "map snd (filter (\<lambda>p. fst p = r) (pairs id3)) = V \<Longrightarrow> V \<noteq> [] \<Longrightarrow>
   performer_get id3 (''performer:'' @ r) = Inr V"
  by (simp only: performer_get_eq2) auto

lemma performer_get_absent:
  "filter (\<lambda>p. fst p = r) (pairs id3) = [] \<Longrightarrow>
   performer_get id3 (''performer:'' @ r) = Inl (KeyError (''performer:'' @ r))"
  by (simp only: performer_get_eq2) simp

lemma performer_set_pairs:
  "\<exists>s. performer_set id3 (''performer:'' @ r) V = Inr s \<and>
     pairs s = filter (\<lambda>p. fst p \<noteq> r) (pairs id3) @ map (\<lambda>v. (r, v)) V \<and>
     tmcl s \<noteq> None \<and> frames s = frames id3 \<and> tcon s = tcon id3 \<and> tdrc s = tdrc id3"
  by (simp only: performer_set_eq) simp

text \<open>
  C4 (amended). For every two distinct roles and every two non-empty value lists, after
  the performer setter has stored the first list under the first role and then the
  second list under the second role, the performer getter returns the first list for the
  first role and the second list for the second. Each set leaves the pairs of the other
  roles in their order, removes the pairs of its own role and puts its new pairs at the
  end of the pair list. Through \<^verbatim>\<open>__setitem__\<close> and \<^verbatim>\<open>__getitem__\<close> the setter and
  getter receive the lowercased key, so the role is the lowercased suffix.
\<close>

theorem performer_roles_independent:
  assumes "r1 \<noteq> r2" "V1 \<noteq> []" "V2 \<noteq> []"
  shows "\<exists>s1 s2.
     performer_set id3 (''performer:'' @ r1) V1 = Inr s1 \<and>
     performer_set s1 (''performer:'' @ r2) V2 = Inr s2 \<and>
     performer_get s2 (''performer:'' @ r1) = Inr V1 \<and>
     performer_get s2 (''performer:'' @ r2) = Inr V2 \<and>
     pairs s1 = filter (\<lambda>p. fst p \<noteq> r1) (pairs id3) @ map (\<lambda>v. (r1, v)) V1 \<and>
     pairs s2 = filter (\<lambda>p. fst p \<noteq> r2) (pairs s1) @ map (\<lambda>v. (r2, v)) V2 \<and>
     setitem EasyID3 id3 (''performer:'' @ r1) (Strs V1)
       = performer_set id3 (''performer:'' @ lower r1) V1 \<and>
     setitem EasyID3 s1 (''performer:'' @ r2) (Strs V2)
       = performer_set s1 (''performer:'' @ lower r2) V2 \<and>
     getitem EasyID3 s2 (''performer:'' @ r1) = performer_get s2 (''performer:'' @ lower r1) \<and>
     getitem EasyID3 s2 (''performer:'' @ r2) = performer_get s2 (''performer:'' @ lower r2)"
proof -
  obtain s1 where 1: "performer_set id3 (''performer:'' @ r1) V1 = Inr s1"
    and p1: "pairs s1 = filter (\<lambda>p. fst p \<noteq> r1) (pairs id3) @ map (\<lambda>v. (r1, v)) V1"
    using performer_set_pairs [of id3 r1 V1] by blast
  obtain s2 where 2: "performer_set s1 (''performer:'' @ r2) V2 = Inr s2"
    and p2: "pairs s2 = filter (\<lambda>p. fst p \<noteq> r2) (pairs s1) @ map (\<lambda>v. (r2, v)) V2"
    using performer_set_pairs [of s1 r2 V2] by blast
  have "filter (\<lambda>p. fst p = r1) (pairs s2) = filter (\<lambda>p. fst p = r1) (pairs s1)"
    unfolding p2 using assms(1) by (rule other_role_after_set)
  moreover have "map snd (filter (\<lambda>p. fst p = r1) (pairs s1)) = V1"
    unfolding p1 by (rule role_after_set)
  ultimately have "map snd (filter (\<lambda>p. fst p = r1) (pairs s2)) = V1" by simp
  then have 3: "performer_get s2 (''performer:'' @ r1) = Inr V1"
    using assms(2) by (rule performer_get_present)
  have "map snd (filter (\<lambda>p. fst p = r2) (pairs s2)) = V2"
    unfolding p2 by (rule role_after_set)
  then have 4: "performer_get s2 (''performer:'' @ r2) = Inr V2"
    using assms(3) by (rule performer_get_present)
  from 1 2 3 4 p1 p2 setitem_performer getitem_performer show ?thesis by blast
qed


theorem performer_roles_independent_witness:
  "\<exists>s1 s2.
     setitem EasyID3 band_id3 ''performer:guitar'' (Strs [''Dave'']) = Inr s1 \<and>
     setitem EasyID3 s1 ''performer:drums'' (Strs [''Eve'', ''Fay'']) = Inr s2 \<and>
     getitem EasyID3 s2 ''performer:guitar'' = Inr [''Dave''] \<and>
     getitem EasyID3 s2 ''performer:drums'' = Inr [''Eve'', ''Fay''] \<and>
     pairs s1 = [(''drums'', ''Bob''), (''guitar'', ''Dave'')] \<and>
     pairs s2 = [(''guitar'', ''Dave''), (''drums'', ''Eve''), (''drums'', ''Fay'')]"
proof -
  have l: "lower ''guitar'' = ''guitar''" "lower ''drums'' = ''drums''"
    by (simp_all add: lower_def lower_char_def)
  have h: "''guitar'' \<noteq> ''drums''" "[''Dave''] \<noteq> []" "[''Eve'', ''Fay''] \<noteq> []"
    by simp_all
  from performer_roles_independent [OF h, of band_id3]
  show ?thesis unfolding l by (auto simp: band_id3_def pairs_def)
qed

text \<open>
  The claim as first stated, for every value list, fails for an empty one: the set stores
  no pair for the role, and the get raises \<^verbatim>\<open>KeyError\<close> where the claim has it return
  the empty list.
\<close>

theorem performer_empty_list_counterexample:
  "setitem EasyID3 empty_id3 ''performer:guitar'' (Strs [])
     = Inr (empty_id3\<lparr>tmcl := Some (TMCL 3 [])\<rparr>) \<and>
   setitem EasyID3 (empty_id3\<lparr>tmcl := Some (TMCL 3 [])\<rparr>) ''performer:drums'' (Strs [''Bob''])
     = Inr (empty_id3\<lparr>tmcl := Some (TMCL 3 [(''drums'', ''Bob'')])\<rparr>) \<and>
   getitem EasyID3 (empty_id3\<lparr>tmcl := Some (TMCL 3 [(''drums'', ''Bob'')])\<rparr>) ''performer:guitar''
     = Inl (KeyError ''performer:guitar'') \<and>
   getitem EasyID3 (empty_id3\<lparr>tmcl := Some (TMCL 3 [(''drums'', ''Bob'')])\<rparr>) ''performer:guitar''
     \<noteq> Inr []"
proof -
  have l: "lower ''guitar'' = ''guitar''" "lower ''drums'' = ''drums''"
    by (simp_all add: lower_def lower_char_def)
  have 1: "setitem EasyID3 empty_id3 ''performer:guitar'' (Strs [])
     = Inr (empty_id3\<lparr>tmcl := Some (TMCL 3 [])\<rparr>)"
    using setitem_performer [of empty_id3 "''guitar''" "[]"] performer_set_eq [of empty_id3 "''guitar''" "[]"]
    by (simp add: l empty_id3_def pairs_def)
  have 2: "setitem EasyID3 (empty_id3\<lparr>tmcl := Some (TMCL 3 [])\<rparr>) ''performer:drums'' (Strs [''Bob''])
     = Inr (empty_id3\<lparr>tmcl := Some (TMCL 3 [(''drums'', ''Bob'')])\<rparr>)"
    using setitem_performer [of "empty_id3\<lparr>tmcl := Some (TMCL 3 [])\<rparr>" "''drums''" "[''Bob'']"]
      performer_set_eq [of "empty_id3\<lparr>tmcl := Some (TMCL 3 [])\<rparr>" "''drums''" "[''Bob'']"]
    by (simp add: l empty_id3_def pairs_def)
  have 3: "getitem EasyID3 (empty_id3\<lparr>tmcl := Some (TMCL 3 [(''drums'', ''Bob'')])\<rparr>) ''performer:guitar''
     = Inl (KeyError ''performer:guitar'')"
    using getitem_performer [of "empty_id3\<lparr>tmcl := Some (TMCL 3 [(''drums'', ''Bob'')])\<rparr>" "''guitar''"]
      performer_get_eq [of "empty_id3\<lparr>tmcl := Some (TMCL 3 [(''drums'', ''Bob'')])\<rparr>" "''guitar''"]
    by (simp add: l empty_id3_def pairs_def)
  from 1 2 3 show ?thesis by simp
qed

text \<open>
  C5. The performer deleter raises \<^verbatim>\<open>KeyError\<close> with the key when the performer frame
  is absent or has no pair of the role; otherwise it removes exactly the pairs of that
  role: when pairs of other roles remain the frame stays with those pairs, in their
  order, and when none remain the frame is removed from the container. A container with
  no performer frame makes every performer get raise \<^verbatim>\<open>KeyError\<close>. Through
  \<^verbatim>\<open>__delitem__\<close> and \<^verbatim>\<open>__getitem__\<close> the functions receive the lowercased key.
\<close>

theorem performer_delete_role:
  "performer_delete id3 (''performer:'' @ r) =
     (case tmcl id3 of
        None \<Rightarrow> Inl (KeyError (''performer:'' @ r))
      | Some mcl \<Rightarrow>
          (if \<not> (\<exists>p \<in> set (people mcl). fst p = r) then Inl (KeyError (''performer:'' @ r))
           else if \<exists>p \<in> set (people mcl). fst p \<noteq> r
             then Inr (id3\<lparr>tmcl := Some (TMCL (tmcl_encoding mcl)
                    (filter (\<lambda>p. fst p \<noteq> r) (people mcl)))\<rparr>)
           else Inr (id3\<lparr>tmcl := None\<rparr>))) \<and>
   (tmcl id3 = None \<longrightarrow>
      performer_get id3 (''performer:'' @ r') = Inl (KeyError (''performer:'' @ r'))) \<and>
   delitem EasyID3 id3 (''performer:'' @ r) = performer_delete id3 (''performer:'' @ lower r) \<and>
   getitem EasyID3 id3 (''performer:'' @ r') = performer_get id3 (''performer:'' @ lower r')"
proof -
  have "tmcl id3 = None \<longrightarrow>
      performer_get id3 (''performer:'' @ r') = Inl (KeyError (''performer:'' @ r'))"
  proof
    assume "tmcl id3 = None"
    then have "filter (\<lambda>p. fst p = r') (pairs id3) = []" by (simp add: pairs_def)
    then show "performer_get id3 (''performer:'' @ r') = Inl (KeyError (''performer:'' @ r'))"
      by (rule performer_get_absent)
  qed
  with performer_delete_eq [of id3 r] delitem_performer [of id3 r] getitem_performer [of id3 r']
  show ?thesis by blast
qed

theorem performer_delete_role_witness:
  "performer_delete band_id3 ''performer:guitar''
     = Inr (band_id3\<lparr>tmcl := Some (TMCL 0 [(''drums'', ''Bob'')])\<rparr>) \<and>
   performer_delete (band_id3\<lparr>tmcl := Some (TMCL 0 [(''drums'', ''Bob'')])\<rparr>) ''performer:guitar''
     = Inl (KeyError ''performer:guitar'') \<and>
   performer_delete (band_id3\<lparr>tmcl := Some (TMCL 0 [(''drums'', ''Bob'')])\<rparr>) ''performer:drums''
     = Inr (band_id3\<lparr>tmcl := None\<rparr>) \<and>
   performer_get (band_id3\<lparr>tmcl := None\<rparr>) ''performer:drums'' = Inl (KeyError ''performer:drums'') \<and>
   performer_delete (band_id3\<lparr>tmcl := None\<rparr>) ''performer:drums'' = Inl (KeyError ''performer:drums'') \<and>
   delitem EasyID3 band_id3 ''performer:Guitar''
     = Inr (band_id3\<lparr>tmcl := Some (TMCL 0 [(''drums'', ''Bob'')])\<rparr>)"
  using performer_delete_role [of band_id3 "''guitar''" "''drums''"]
    performer_delete_role [of band_id3 "''Guitar''" "''drums''"]
    performer_delete_role [of "band_id3\<lparr>tmcl := Some (TMCL 0 [(''drums'', ''Bob'')])\<rparr>" "''guitar''" "''drums''"]
    performer_delete_role [of "band_id3\<lparr>tmcl := Some (TMCL 0 [(''drums'', ''Bob'')])\<rparr>" "''drums''" "''drums''"]
    performer_delete_role [of "band_id3\<lparr>tmcl := None\<rparr>" "''drums''" "''drums''"]
  by (simp add: band_id3_def lower_def lower_char_def)

text \<open>
  C10. Setting a performer key to the empty list never removes the performer frame. With
  no frame it leaves a new frame with an empty pair list (encoding 3); with a frame it
  leaves that frame with the pairs of the role removed. Afterwards the performer get and
  delete of that role raise \<^verbatim>\<open>KeyError\<close>, and the lister reports no key of that role.
  Through the facade the functions receive the lowercased key.
\<close>

theorem performer_set_empty:
  "\<exists>s. performer_set id3 (''performer:'' @ r) [] = Inr s \<and>
     tmcl s = Some (TMCL (case tmcl id3 of None \<Rightarrow> 3 | Some mcl \<Rightarrow> tmcl_encoding mcl)
                      (filter (\<lambda>p. fst p \<noteq> r) (pairs id3))) \<and>
     frames s = frames id3 \<and> tcon s = tcon id3 \<and> tdrc s = tdrc id3 \<and>
     performer_get s (''performer:'' @ r) = Inl (KeyError (''performer:'' @ r)) \<and>
     performer_delete s (''performer:'' @ r) = Inl (KeyError (''performer:'' @ r)) \<and>
     (\<exists>ks. performer_list s ''performer:*'' = Inr ks \<and> ''performer:'' @ r \<notin> set ks) \<and>
     setitem EasyID3 id3 (''performer:'' @ r) (Strs [])
       = performer_set id3 (''performer:'' @ lower r) [] \<and>
     getitem EasyID3 s (''performer:'' @ r) = performer_get s (''performer:'' @ lower r) \<and>
     delitem EasyID3 s (''performer:'' @ r) = performer_delete s (''performer:'' @ lower r)"
proof -
  let ?ps = "filter (\<lambda>p. fst p \<noteq> r) (pairs id3)"
  let ?s = "id3\<lparr>tmcl := Some (TMCL (case tmcl id3 of None \<Rightarrow> 3 | Some mcl \<Rightarrow> tmcl_encoding mcl) ?ps)\<rparr>"
  have 1: "performer_set id3 (''performer:'' @ r) [] = Inr ?s"
    by (simp only: performer_set_eq) simp
  have 2: "performer_get ?s (''performer:'' @ r) = Inl (KeyError (''performer:'' @ r))"
    by (rule performer_get_absent) (simp add: filter_role_removed)
  have 3: "performer_delete ?s (''performer:'' @ r) = Inl (KeyError (''performer:'' @ r))"
    by (simp only: performer_delete_eq) simp
  have 4: "performer_list ?s ''performer:*''
     = Inr (remdups (map (\<lambda>p. ''performer:'' @ fst p) ?ps))"
    by (simp only: performer_list_eq) simp
  have 5: "''performer:'' @ r \<notin> set (remdups (map (\<lambda>p. ''performer:'' @ fst p) ?ps))"
    by auto
  have 6: "tmcl ?s = Some (TMCL (case tmcl id3 of None \<Rightarrow> 3 | Some mcl \<Rightarrow> tmcl_encoding mcl) ?ps)"
    "frames ?s = frames id3" "tcon ?s = tcon id3" "tdrc ?s = tdrc id3"
    by simp_all
  from 1 2 3 4 5 6 setitem_performer [of id3 r "[]"] getitem_performer [of ?s r]
    delitem_performer [of ?s r]
  show ?thesis by blast
qed

theorem performer_set_empty_witness:
  "performer_set band_id3 ''performer:guitar'' []
     = Inr (band_id3\<lparr>tmcl := Some (TMCL 0 [(''drums'', ''Bob'')])\<rparr>) \<and>
   performer_set empty_id3 ''performer:guitar'' [] = Inr (empty_id3\<lparr>tmcl := Some (TMCL 3 [])\<rparr>) \<and>
   setitem EasyID3 band_id3 ''performer:Guitar'' (Strs [])
     = Inr (band_id3\<lparr>tmcl := Some (TMCL 0 [(''drums'', ''Bob'')])\<rparr>)"
  using performer_set_empty [of band_id3 "''guitar''"] performer_set_empty [of empty_id3 "''guitar''"]
    performer_set_empty [of band_id3 "''Guitar''"]
  by (auto simp: band_id3_def empty_id3_def pairs_def lower_def lower_char_def)

section \<open>Genre and date\<close>

lemma dict_match_genre:
  "dict_match (Get_tbl EasyID3) ''genre'' = Some genre_get"
  "dict_match (Set_tbl EasyID3) ''genre'' = Some genre_set"
  "dict_match (Delete_tbl EasyID3) ''genre'' = Some genre_delete"
  by (simp_all add: Get_EasyID3 Set_EasyID3 Delete_EasyID3 text_keys_def dict_match_def)

lemma dict_match_date:
  "dict_match (Get_tbl EasyID3) ''date'' = Some date_get"
  "dict_match (Set_tbl EasyID3) ''date'' = Some date_set"
  "dict_match (Delete_tbl EasyID3) ''date'' = Some date_delete"
  by (simp_all add: Get_EasyID3 Set_EasyID3 Delete_EasyID3 text_keys_def dict_match_def)

lemma lower_genre_date: "lower ''genre'' = ''genre''" "lower ''date'' = ''date''"
  by (simp_all add: lower_def lower_char_def)

lemma getitem_genre: "getitem EasyID3 id3 ''genre'' = genre_get id3 ''genre''"
  by (simp only: getitem_def lower_genre_date Let_def dict_match_genre option.case)

lemma setitem_genre: "setitem EasyID3 id3 ''genre'' (Strs V) = genre_set id3 ''genre'' V"
  by (simp only: setitem_def lower_genre_date Let_def dict_match_genre option.case pyvalue.case)

lemma getitem_date: "getitem EasyID3 id3 ''date'' = date_get id3 ''date''"
  by (simp only: getitem_def lower_genre_date Let_def dict_match_date option.case)

lemma setitem_date: "setitem EasyID3 id3 ''date'' (Strs V) = date_set id3 ''date'' V"
  by (simp only: setitem_def lower_genre_date Let_def dict_match_date option.case pyvalue.case)

lemma genre_set_get:
  "\<exists>s. setitem EasyID3 id3 ''genre'' (Strs V) = Inr s \<and>
     tcon s = Some (TCON (case tcon id3 of None \<Rightarrow> 3 | Some frame \<Rightarrow> tcon_encoding frame) V) \<and>
     frames s = frames id3 \<and> tdrc s = tdrc id3 \<and> tmcl s = tmcl id3 \<and>
     getitem EasyID3 s ''genre'' = Inr V"
  by (simp only: setitem_genre getitem_genre)
     (simp add: genre_set_def genre_get_def lookup_def split: option.splits)

text \<open>
  C6. Setting the genre replaces, it does not append: on every container, after
  \<^verbatim>\<open>self["genre"] = ["Rock", "Pop"]\<close> the get returns that list, and after a further
  \<^verbatim>\<open>self["genre"] = ["Jazz"]\<close> it returns exactly \<^verbatim>\<open>["Jazz"]\<close>. For every list the set
  succeeds: with no genre frame it adds one built with encoding 3 and the given values,
  with a genre frame it replaces that frame's genre list and keeps the frame otherwise;
  no other frame changes, and the get then returns the list.
\<close>

theorem genre_set_replaces:
  "(\<exists>s1 s2.
      setitem EasyID3 id3 ''genre'' (Strs [''Rock'', ''Pop'']) = Inr s1 \<and>
      getitem EasyID3 s1 ''genre'' = Inr [''Rock'', ''Pop''] \<and>
      setitem EasyID3 s1 ''genre'' (Strs [''Jazz'']) = Inr s2 \<and>
      getitem EasyID3 s2 ''genre'' = Inr [''Jazz'']) \<and>
   (\<exists>s. setitem EasyID3 id3 ''genre'' (Strs V) = Inr s \<and>
      tcon s = Some (TCON (case tcon id3 of None \<Rightarrow> 3 | Some frame \<Rightarrow> tcon_encoding frame) V) \<and>
      frames s = frames id3 \<and> tdrc s = tdrc id3 \<and> tmcl s = tmcl id3 \<and>
      getitem EasyID3 s ''genre'' = Inr V)"
proof -
  obtain s1 where 1: "setitem EasyID3 id3 ''genre'' (Strs [''Rock'', ''Pop'']) = Inr s1"
    "getitem EasyID3 s1 ''genre'' = Inr [''Rock'', ''Pop'']"
    using genre_set_get [of id3 "[''Rock'', ''Pop'']"] by blast
  obtain s2 where 2: "setitem EasyID3 s1 ''genre'' (Strs [''Jazz'']) = Inr s2"
    "getitem EasyID3 s2 ''genre'' = Inr [''Jazz'']"
    using genre_set_get [of s1 "[''Jazz'']"] by blast
  from 1 2 genre_set_get [of id3 V] show ?thesis by blast
qed

theorem genre_set_replaces_witness:
  "setitem EasyID3 tagged_id3 ''genre'' (Strs [''Jazz''])
     = Inr (tagged_id3\<lparr>tcon := Some (TCON 0 [''Jazz''])\<rparr>) \<and>
   getitem EasyID3 (tagged_id3\<lparr>tcon := Some (TCON 0 [''Jazz''])\<rparr>) ''genre'' = Inr [''Jazz''] \<and>
   setitem EasyID3 empty_id3 ''genre'' (Strs [''Rock'', ''Pop''])
     = Inr (empty_id3\<lparr>tcon := Some (TCON 3 [''Rock'', ''Pop''])\<rparr>)"
proof -
  from genre_set_replaces [of tagged_id3 "[''Jazz'']"]
  obtain s where s: "setitem EasyID3 tagged_id3 ''genre'' (Strs [''Jazz'']) = Inr s"
    "tcon s = Some (TCON 0 [''Jazz''])" "frames s = frames tagged_id3" "tdrc s = tdrc tagged_id3"
    "tmcl s = tmcl tagged_id3" "getitem EasyID3 s ''genre'' = Inr [''Jazz'']"
    by (auto simp: tagged_id3_def)
  then have a: "s = tagged_id3\<lparr>tcon := Some (TCON 0 [''Jazz''])\<rparr>" by (cases s) (simp add: tagged_id3_def)
  from genre_set_replaces [of empty_id3 "[''Rock'', ''Pop'']"]
  obtain t where t: "setitem EasyID3 empty_id3 ''genre'' (Strs [''Rock'', ''Pop'']) = Inr t"
    "tcon t = Some (TCON 3 [''Rock'', ''Pop''])" "frames t = frames empty_id3" "tdrc t = tdrc empty_id3"
    "tmcl t = tmcl empty_id3"
    by (auto simp: empty_id3_def)
  then have b: "t = empty_id3\<lparr>tcon := Some (TCON 3 [''Rock'', ''Pop''])\<rparr>" by (cases t) (simp add: empty_id3_def)
  from s a t b show ?thesis by simp
qed

lemma setitem_title: "setitem EasyID3 id3 ''title'' (Strs V) = setter ''TIT2'' id3 ''title'' V"
proof -
  have h: "(''TIT2'', ''title'') \<in> set text_keys" by (simp add: text_keys_def)
  show ?thesis
    by (simp only: setitem_def lower_idem_text_keys [OF h] Let_def dict_match_Set_text [OF h]
        option.case pyvalue.case)
qed

text \<open>
  C7. Setting the date always installs a new date frame built from the given values with
  encoding 3, whatever date frame the container held, and changes no other frame; the
  get then returns the textual form of those values only. A text key's set instead
  keeps an existing frame (here with its encoding \<open>e\<close>) and replaces its text.
\<close>

theorem date_set_overwrites:
  "(\<exists>s. setitem EasyID3 id3 ''date'' (Strs V) = Inr s \<and>
      tdrc s = Some (TDRC 3 (map ID3TimeStamp V)) \<and>
      frames s = frames id3 \<and> tcon s = tcon id3 \<and> tmcl s = tmcl id3 \<and>
      getitem EasyID3 s ''date'' = Inr V) \<and>
   (\<exists>s. setitem EasyID3 (id3\<lparr>frames := (frames id3)(''TIT2'' \<mapsto> TextFrame e old)\<rparr>) ''title'' (Strs V)
          = Inr s \<and>
      frames s ''TIT2'' = Some (TextFrame e V))"
proof -
  have "\<exists>s. setitem EasyID3 id3 ''date'' (Strs V) = Inr s \<and>
      tdrc s = Some (TDRC 3 (map ID3TimeStamp V)) \<and>
      frames s = frames id3 \<and> tcon s = tcon id3 \<and> tmcl s = tmcl id3 \<and>
      getitem EasyID3 s ''date'' = Inr V"
    by (simp only: setitem_date getitem_date)
       (simp add: date_set_def date_get_def lookup_def comp_def)
  moreover have "\<exists>s. setitem EasyID3 (id3\<lparr>frames := (frames id3)(''TIT2'' \<mapsto> TextFrame e old)\<rparr>) ''title'' (Strs V)
          = Inr s \<and> frames s ''TIT2'' = Some (TextFrame e V)"
    by (simp only: setitem_title) (simp add: setter_def lookup_def)
  ultimately show ?thesis by blast
qed

theorem date_set_overwrites_witness:
  "setitem EasyID3 tagged_id3 ''date'' (Strs [''2004'', ''2005''])
     = Inr (tagged_id3\<lparr>tdrc := Some (TDRC 3 [ID3TimeStamp ''2004'', ID3TimeStamp ''2005''])\<rparr>) \<and>
   getitem EasyID3 (tagged_id3\<lparr>tdrc := Some (TDRC 3 [ID3TimeStamp ''2004'', ID3TimeStamp ''2005''])\<rparr>)
     ''date'' = Inr [''2004'', ''2005'']"
proof -
  from date_set_overwrites [of tagged_id3 "[''2004'', ''2005'']"]
  obtain s where s: "setitem EasyID3 tagged_id3 ''date'' (Strs [''2004'', ''2005'']) = Inr s"
    "tdrc s = Some (TDRC 3 [ID3TimeStamp ''2004'', ID3TimeStamp ''2005''])"
    "frames s = frames tagged_id3" "tcon s = tcon tagged_id3"
    "tmcl s = tmcl tagged_id3" "getitem EasyID3 s ''date'' = Inr [''2004'', ''2005'']"
    by auto
  then have "s = tagged_id3\<lparr>tdrc := Some (TDRC 3 [ID3TimeStamp ''2004'', ID3TimeStamp ''2005''])\<rparr>"
    by (cases s) (simp add: tagged_id3_def)
  with s show ?thesis by simp
qed

section \<open>Listing and printing\<close>

lemma keys_loop_append:
  "keys_loop cls id3 (ks1 @ ks2) acc =
     (case keys_loop cls id3 ks1 acc of Inl e \<Rightarrow> Inl e | Inr acc' \<Rightarrow> keys_loop cls id3 ks2 acc')"
  by (induction ks1 arbitrary: acc) (auto split: option.splits sum.splits)

lemma getitem_text:
  "(frameid, K) \<in> set text_keys \<Longrightarrow> getitem EasyID3 id3 K = getter frameid id3 K"
  by (simp add: getitem_def lower_idem_text_keys dict_match_Get_text)

lemma has_key_text:
  "(frameid, K) \<in> set text_keys \<Longrightarrow> has_key EasyID3 id3 K = Inr (frames id3 frameid \<noteq> None)"
  by (auto simp: has_key_def getitem_text getter_def lookup_def split: option.splits)

lemma not_listed_text:
  "(frameid, K) \<in> set text_keys \<Longrightarrow> map_of (List_tbl EasyID3) K = None"
  by (auto simp: List_EasyID3 text_keys_def)

lemma keys_loop_text:
  "set tk \<subseteq> set text_keys \<Longrightarrow>
   keys_loop EasyID3 id3 (map snd tk) acc
     = Inr (acc @ map snd (filter (\<lambda>(frameid, key). frames id3 frameid \<noteq> None) tk))"
proof (induction tk arbitrary: acc)
  case Nil
  then show ?case by simp
next
  case (Cons a tk)
  obtain f k where a: "a = (f, k)" by (cases a)
  with Cons.prems have m: "(f, k) \<in> set text_keys" and sub: "set tk \<subseteq> set text_keys" by auto
  show ?case
    using Cons.IH [OF sub] by (simp add: a not_listed_text [OF m] has_key_text [OF m])
qed

lemma has_key_genre: "has_key EasyID3 id3 ''genre'' = Inr (tcon id3 \<noteq> None)"
  by (simp only: has_key_def getitem_genre) (auto simp: genre_get_def lookup_def split: option.splits)

lemma has_key_date: "has_key EasyID3 id3 ''date'' = Inr (tdrc id3 \<noteq> None)"
  by (simp only: has_key_def getitem_date) (auto simp: date_get_def lookup_def split: option.splits)

lemma keys_EasyID3:
  "keys EasyID3 id3 =
     Inr (map snd (filter (\<lambda>(frameid, key). frames id3 frameid \<noteq> None) text_keys)
          @ (if tcon id3 \<noteq> None then [''genre''] else [])
          @ (if tdrc id3 \<noteq> None then [''date''] else [])
          @ remdups (map (\<lambda>p. ''performer:'' @ fst p) (pairs id3)))"
proof -
  have g: "map fst (Get_tbl EasyID3) = map snd text_keys @ [''genre'', ''date'', ''performer:*'']"
    by (simp add: Get_EasyID3 comp_def case_prod_unfold)
  have l: "map_of (List_tbl EasyID3) ''genre'' = None" "map_of (List_tbl EasyID3) ''date'' = None"
    "map_of (List_tbl EasyID3) ''performer:*'' = Some performer_list"
    by (simp_all add: List_EasyID3)
  show ?thesis
    unfolding keys_def g keys_loop_append keys_loop_text [OF subset_refl]
    by (simp add: l has_key_genre has_key_date performer_list_eq)
qed

lemma pprint_loop_ok:
  "\<forall>k \<in> set ks. getitem cls id3 k = Inr (vals k) \<Longrightarrow>
   pprint_loop cls id3 ks acc
     = Inr (acc @ concat (map (\<lambda>k. map (\<lambda>v. k @ ''='' @ v) (vals k)) ks))"
  by (induction ks arbitrary: acc) auto

text \<open>
  C8. \<^verbatim>\<open>keys()\<close> raises nothing on any container: the failure of a getter during the
  existence check is absorbed. \<^verbatim>\<open>pprint()\<close> however can raise \<^verbatim>\<open>KeyError\<close>: on a
  container whose performer frame has the role \<^verbatim>\<open>Guitar\<close>, \<^verbatim>\<open>keys()\<close> reports
  \<^verbatim>\<open>performer:Guitar\<close> from the lister, \<^verbatim>\<open>pprint()\<close> reads that key, \<^verbatim>\<open>__getitem__\<close>
  lowercases it, and \<^verbatim>\<open>performer_get\<close> finds no pair of the role \<^verbatim>\<open>guitar\<close>.
\<close>

theorem pprint_raises_KeyError:
  "(\<exists>ks. keys EasyID3 id3 = Inr ks) \<and>
   keys EasyID3 mixed_case_id3 = Inr [''performer:Guitar''] \<and>
   getitem EasyID3 mixed_case_id3 ''performer:Guitar'' = Inl (KeyError ''performer:guitar'') \<and>
   pprint EasyID3 mixed_case_id3 = Inl (KeyError ''performer:guitar'') \<and>
   isinstance_KeyError (KeyError ''performer:guitar'')"
proof -
  have k: "keys EasyID3 mixed_case_id3 = Inr [''performer:Guitar'']"
    by (simp add: keys_EasyID3 mixed_case_id3_def pairs_def)
  have l: "lower ''Guitar'' = ''guitar''" by (simp add: lower_def lower_char_def)
  have g: "getitem EasyID3 mixed_case_id3 ''performer:Guitar'' = Inl (KeyError ''performer:guitar'')"
    using getitem_performer [of mixed_case_id3 "''Guitar''"]
      performer_get_eq [of mixed_case_id3 "''guitar''"]
    by (simp add: l mixed_case_id3_def pairs_def)
  have "pprint EasyID3 mixed_case_id3 = Inl (KeyError ''performer:guitar'')"
    by (simp add: pprint_def k g)
  with k g show ?thesis by (simp add: keys_EasyID3)
qed

lemma getitem_listed:
  assumes low: "\<forall>p \<in> set (pairs id3). \<exists>q \<in> set (pairs id3). fst q = lower (fst p)"
    and ks: "keys EasyID3 id3 = Inr ks" and k: "k \<in> set ks"
  shows "\<exists>vs. getitem EasyID3 id3 k = Inr vs"
proof -
  from ks k have "k \<in> set (map snd (filter (\<lambda>(frameid, key). frames id3 frameid \<noteq> None) text_keys))
      \<or> (k = ''genre'' \<and> tcon id3 \<noteq> None) \<or> (k = ''date'' \<and> tdrc id3 \<noteq> None)
      \<or> k \<in> set (map (\<lambda>p. ''performer:'' @ fst p) (pairs id3))"
    unfolding keys_EasyID3 by (auto split: if_splits)
  then consider
      (plain) f where "(f, k) \<in> set text_keys" "frames id3 f \<noteq> None"
    | (genre) "k = ''genre''" "tcon id3 \<noteq> None"
    | (date) "k = ''date''" "tdrc id3 \<noteq> None"
    | (perf) p where "p \<in> set (pairs id3)" "k = ''performer:'' @ fst p"
    by auto
  then show ?thesis
  proof cases
    case plain
    then show ?thesis by (auto simp: getitem_text getter_def lookup_def)
  next
    case genre
    then show ?thesis
      by (simp only: getitem_genre) (auto simp: genre_get_def lookup_def)
  next
    case date
    then show ?thesis
      by (simp only: getitem_date) (auto simp: date_get_def lookup_def)
  next
    case perf
    from perf(1) low obtain q where q: "q \<in> set (pairs id3)" "fst q = lower (fst p)" by blast
    have "getitem EasyID3 id3 k = performer_get id3 (''performer:'' @ lower (fst p))"
      unfolding perf(2) by (simp only: getitem_performer)
    also have "\<dots> = Inr (map snd (filter (\<lambda>x. fst x = lower (fst p)) (pairs id3)))"
      using q by (simp only: performer_get_eq) auto
    finally show ?thesis by blast
  qed
qed

text \<open>
  Where every key the lister reports can be read back (the lowercase form of every stored
  role is a stored role, as for the roles the facade itself writes), \<^verbatim>\<open>pprint()\<close>
  returns the lines \<^verbatim>\<open>key=value\<close>, one for each value the get returns for each key of
  \<^verbatim>\<open>keys()\<close>, the keys sorted, joined by newlines.
\<close>

lemma pprint_lines:
  "(\<forall>p \<in> set (pairs id3). \<exists>q \<in> set (pairs id3). fst q = lower (fst p)) \<longrightarrow>
     (\<exists>ks vals.
        keys EasyID3 id3 = Inr ks \<and>
        (\<forall>k \<in> set ks. getitem EasyID3 id3 k = Inr (vals k)) \<and>
        pprint EasyID3 id3 =
          Inr (join [CHR 0x0A] (concat (map (\<lambda>k. map (\<lambda>v. k @ ''='' @ v) (vals k)) (sort ks)))))"
proof
  assume low: "\<forall>p \<in> set (pairs id3). \<exists>q \<in> set (pairs id3). fst q = lower (fst p)"
  obtain ks where ks: "keys EasyID3 id3 = Inr ks" by (simp add: keys_EasyID3)
  define vals where "vals k = (case getitem EasyID3 id3 k of Inr vs \<Rightarrow> vs | Inl e \<Rightarrow> [])" for k
  have v: "\<forall>k \<in> set ks. getitem EasyID3 id3 k = Inr (vals k)"
  proof
    fix k assume "k \<in> set ks"
    from getitem_listed [OF low ks this] show "getitem EasyID3 id3 k = Inr (vals k)"
      by (auto simp: vals_def)
  qed
  then have "\<forall>k \<in> set (sort ks). getitem EasyID3 id3 k = Inr (vals k)" by simp
  then have "pprint_loop EasyID3 id3 (sort ks) []
     = Inr ([] @ concat (map (\<lambda>k. map (\<lambda>v. k @ ''='' @ v) (vals k)) (sort ks)))"
    by (rule pprint_loop_ok)
  then have "pprint EasyID3 id3 =
          Inr (join [CHR 0x0A] (concat (map (\<lambda>k. map (\<lambda>v. k @ ''='' @ v) (vals k)) (sort ks))))"
    by (simp add: pprint_def ks)
  with ks v show "\<exists>ks vals.
        keys EasyID3 id3 = Inr ks \<and>
        (\<forall>k \<in> set ks. getitem EasyID3 id3 k = Inr (vals k)) \<and>
        pprint EasyID3 id3 =
          Inr (join [CHR 0x0A] (concat (map (\<lambda>k. map (\<lambda>v. k @ ''='' @ v) (vals k)) (sort ks))))"
    by blast
qed

lemma sorted_keys_examples:
  "\<exists>ks. keys EasyID3 example_id3 = Inr ks \<and> sort ks = [''album'', ''title'']"
  "\<exists>ks. keys EasyID3 credited_id3 = Inr ks \<and> sort ks = [''album'', ''performer:Guitar'', ''title'']"
  "\<exists>ks. keys EasyID3 two_case_id3 = Inr ks \<and> sort ks = [''performer:Guitar'', ''performer:guitar'']"
  by (simp_all add: keys_EasyID3 text_keys_def example_id3_def credited_id3_def two_case_id3_def
      pairs_def)

text \<open>
  C9. \<^verbatim>\<open>pprint()\<close> is to return, joined by newlines, one line \<^verbatim>\<open>key=value\<close> for each
  value of each key of \<^verbatim>\<open>keys()\<close>, the keys sorted. For the container with title \<^verbatim>\<open>X\<close>
  and album \<^verbatim>\<open>Y\<close> it returns \<^verbatim>\<open>album=Y\<close>, newline, \<^verbatim>\<open>title=X\<close>. It does not do so on
  every container. When that container also credits the role \<^verbatim>\<open>Guitar\<close>, \<^verbatim>\<open>keys()\<close>
  reports \<^verbatim>\<open>performer:Guitar\<close> and \<^verbatim>\<open>pprint()\<close> raises \<^verbatim>\<open>KeyError\<close> where the lines
  \<^verbatim>\<open>album=Y\<close>, \<^verbatim>\<open>performer:Guitar=Alice\<close>, \<^verbatim>\<open>title=X\<close> are due. With the pairs
  (\<^verbatim>\<open>Guitar\<close>, \<^verbatim>\<open>Alice\<close>) and (\<^verbatim>\<open>guitar\<close>, \<^verbatim>\<open>Bob\<close>) it prints \<^verbatim>\<open>Bob\<close>, the value of
  the role \<^verbatim>\<open>guitar\<close>, under the key \<^verbatim>\<open>performer:Guitar\<close>.
\<close>

theorem pprint_lines_mixed_case:
  "pprint EasyID3 example_id3 = Inr (''album=Y'' @ [CHR 0x0A] @ ''title=X'') \<and>
   pprint EasyID3 credited_id3 = Inl (KeyError ''performer:guitar'') \<and>
   pprint EasyID3 two_case_id3
     = Inr (''performer:Guitar=Bob'' @ [CHR 0x0A] @ ''performer:guitar=Bob'')"
proof -
  have m: "(''TALB'', ''album'') \<in> set text_keys" "(''TIT2'', ''title'') \<in> set text_keys"
    by (simp_all add: text_keys_def)
  have l: "lower ''Guitar'' = ''guitar''" "lower ''guitar'' = ''guitar''"
    by (simp_all add: lower_def lower_char_def)
  have g1: "getitem EasyID3 example_id3 ''album'' = Inr [''Y'']"
    "getitem EasyID3 example_id3 ''title'' = Inr [''X'']"
    by (simp_all add: getitem_text [OF m(1)] getitem_text [OF m(2)] getter_def lookup_def
        example_id3_def)
  have g2: "getitem EasyID3 credited_id3 ''album'' = Inr [''Y'']"
    by (simp add: getitem_text [OF m(1)] getter_def lookup_def credited_id3_def)
  have g3: "getitem EasyID3 credited_id3 ''performer:Guitar'' = Inl (KeyError ''performer:guitar'')"
    using getitem_performer [of credited_id3 "''Guitar''"]
      performer_get_eq [of credited_id3 "''guitar''"]
    by (simp add: l credited_id3_def pairs_def)
  have g4: "getitem EasyID3 two_case_id3 ''performer:Guitar'' = Inr [''Bob'']"
    "getitem EasyID3 two_case_id3 ''performer:guitar'' = Inr [''Bob'']"
    using getitem_performer [of two_case_id3 "''Guitar''"]
      getitem_performer [of two_case_id3 "''guitar''"]
      performer_get_eq [of two_case_id3 "''guitar''"]
    by (simp_all add: l two_case_id3_def pairs_def)
  from sorted_keys_examples(1) have 1:
    "pprint EasyID3 example_id3 = Inr (''album=Y'' @ [CHR 0x0A] @ ''title=X'')"
    by (auto simp: pprint_def g1)
  from sorted_keys_examples(2) have 2:
    "pprint EasyID3 credited_id3 = Inl (KeyError ''performer:guitar'')"
    by (auto simp: pprint_def g2 g3)
  from sorted_keys_examples(3) have 3:
    "pprint EasyID3 two_case_id3
       = Inr (''performer:Guitar=Bob'' @ [CHR 0x0A] @ ''performer:guitar=Bob'')"
    by (auto simp: pprint_def g4)
  from 1 2 3 show ?thesis by simp
qed

end
